theory Spec2Isabelle
  imports Complex_Main
begin

section \<open>Strings, JSON values and HTTP responses\<close>

text \<open>
  \<^verbatim>\<open>String.prototype.toLowerCase\<close>, on the letters it can turn into the role names the
  routes compare with: the 26 ASCII capitals go to their small letters, every other
  character is left as it is.
\<close>

definition lower_char :: "char \<Rightarrow> char" where
  "lower_char c =
     (case map_of (zip ''ABCDEFGHIJKLMNOPQRSTUVWXYZ'' ''abcdefghijklmnopqrstuvwxyz'') c of
        Some l \<Rightarrow> l
      | None \<Rightarrow> c)"

definition toLowerCase :: "string \<Rightarrow> string" where
  "toLowerCase s = map lower_char s"

text \<open>
  The claims carried by a signed token: the payload handed to \<^verbatim>\<open>jwt.sign\<close>
  (\<^verbatim>\<open>id\<close>, \<^verbatim>\<open>email\<close>, \<^verbatim>\<open>role\<close>; a refresh token has the \<^verbatim>\<open>id\<close> only) and the
  registered claims \<^verbatim>\<open>iat\<close> and \<^verbatim>\<open>exp\<close> the library adds. Times are seconds.
\<close>

record payload =
  jwt_id :: int
  jwt_email :: "string option"
  jwt_role :: "string option"

record claims = payload +
  jwt_iat :: int
  jwt_exp :: "int option"

text \<open>
  A string that may be a token. The signature is symbolic: \<open>Jws c k\<close> is the compact
  serialisation of the claims \<open>c\<close> signed with the secret \<open>k\<close>; \<open>Text s\<close> is any other
  text. A tampered token is a \<open>Jws\<close> whose key is not the verifier's secret.
\<close>

datatype tokstr = Text string | Jws claims string

datatype json =
    JNull
  | JBool bool
  | JNum rat
  | JStr string
  | JTok tokstr
  | JObj "(string \<times> json) list"

text \<open>\<^verbatim>\<open>res.status(n).json(v)\<close>\<close>

record response =
  status :: nat
  body :: json

definition reply :: "nat \<Rightarrow> json \<Rightarrow> response" where
  "reply n v = \<lparr>status = n, body = v\<rparr>"

definition field :: "string \<Rightarrow> json \<Rightarrow> json option" where
  "field k v = (case v of JObj kvs \<Rightarrow> map_of kvs k | _ \<Rightarrow> None)"

section \<open>The jsonwebtoken and bcrypt libraries\<close>

text \<open>
  \<^verbatim>\<open>jwt.sign(payload, secret)\<close> is \<open>NoOptions\<close>; \<^verbatim>\<open>jwt.sign(payload, secret, {expiresIn: v})\<close>
  is \<open>ExpiresIn d\<close>, where \<open>d\<close> is the number of seconds the library reads from \<open>v\<close>, and
  \<open>None\<close> when \<open>v\<close> is undefined or no timespan (the library then throws).
\<close>

datatype sign_options = NoOptions | ExpiresIn "int option"

definition jwt_sign :: "payload \<Rightarrow> string \<Rightarrow> sign_options \<Rightarrow> int \<Rightarrow> string + tokstr" where
  \<open>jwt_sign pl secret opts now =
     (if secret = [] then Inl ''secretOrPrivateKey must have a value''
      else case opts of
        NoOptions \<Rightarrow>
          Inr (Jws \<lparr>jwt_id = jwt_id pl, jwt_email = jwt_email pl, jwt_role = jwt_role pl,
                    jwt_iat = now, jwt_exp = None\<rparr> secret)
      | ExpiresIn None \<Rightarrow>
          Inl ''"expiresIn" should be a number of seconds or string representing a timespan''
      | ExpiresIn (Some d) \<Rightarrow>
          Inr (Jws \<lparr>jwt_id = jwt_id pl, jwt_email = jwt_email pl, jwt_role = jwt_role pl,
                    jwt_iat = now, jwt_exp = Some (now + d)\<rparr> secret))\<close>

text \<open>
  \<^verbatim>\<open>jwt.verify(token, secret)\<close> at the time \<open>now\<close>: the decoded claims, or the message of
  the error thrown. Text that is no token is refused for being empty, for not having three
  parts between dots, or for not decoding. The signature is checked before the expiry, and
  a token has expired when \<open>now\<close> has reached its \<^verbatim>\<open>exp\<close>.
\<close>

fun jwt_verify :: "tokstr \<Rightarrow> string \<Rightarrow> int \<Rightarrow> string + claims" where
  "jwt_verify (Text s) secret now =
     Inl (if s = [] then ''jwt must be provided''
          else if length (filter (\<lambda>c. c = CHR ''.'') s) \<noteq> 2 then ''jwt malformed''
          else ''invalid token'')"
| "jwt_verify (Jws c k) secret now =
     (if secret = [] then Inl ''secret or public key must be provided''
      else if k \<noteq> secret then Inl ''invalid signature''
      else case jwt_exp c of
        None \<Rightarrow> Inr c
      | Some e \<Rightarrow> if e \<le> now then Inl ''jwt expired'' else Inr c)"

text \<open>
  \<^verbatim>\<open>bcrypt.compare(data, hash)\<close>: the comparison itself is a parameter \<open>cmp\<close>; the call
  rejects when \<open>data\<close> is missing.
\<close>

definition compare :: "(string \<Rightarrow> string \<Rightarrow> bool) \<Rightarrow> string option \<Rightarrow> string \<Rightarrow> string + bool" where
  "compare cmp data hash =
     (case data of
        None \<Rightarrow> Inl ''data and hash arguments required''
      | Some pw \<Rightarrow> Inr (cmp pw hash))"

section \<open>Configuration and the store\<close>

text \<open>
  The environment. An unset or empty secret is \<open>[]\<close>; \<open>JWT_ACCESS_EXPIRATION\<close> holds the
  seconds denoted by the variable (\<^verbatim>\<open>"1h"\<close> is 3600), \<open>None\<close> when unset or no timespan.
\<close>

record env =
  JWT_SECRET :: string
  JWT_REFRESH_SECRET :: string
  JWT_ACCESS_EXPIRATION :: "int option"

text \<open>
  Table rows. Columns that every writing route fills are plain values; the others are
  nullable (\<open>None\<close> is SQL NULL).
\<close>

record user =
  u_id :: int
  u_fullname :: string
  u_username :: string
  u_email :: string
  u_password :: string
  u_role :: string
  u_phone :: "string option"
  u_address :: "string option"
  u_is_active_disabled :: "bool option"

record token_row =
  t_user_id :: int
  t_token :: tokstr
  t_refresh_token :: tokstr
  t_created_at :: int

record order =
  o_id :: int
  o_customer_id :: "int option"
  o_status :: "string option"
  o_order_date :: "int option"

record product =
  p_id :: int
  p_name :: string
  p_price :: rat
  p_size :: string
  p_color :: string
  p_category :: string
  p_available :: bool
  p_stock :: "int option"

record store =
  users :: "user list"
  tokens :: "token_row list"
  orders :: "order list"
  products :: "product list"

text \<open>
  A store call can throw (a lost connection, a constraint, a value the column rejects).
  \<open>Some (i, m)\<close> says that the \<open>i\<close>-th store statement the handler issues, counted
  from 0, throws an error with message \<open>m\<close> and has no effect; \<open>None\<close> that none does.
  The statement that throws ends the \<^verbatim>\<open>try\<close> block, so one index describes a run of it.
  The \<^verbatim>\<open>catch\<close> block of POST /products issues a statement of its own, the ROLLBACK;
  whether that one throws is a separate argument of the handler.
\<close>

type_synonym fault = "(nat \<times> string) option"

definition throws :: "fault \<Rightarrow> nat \<Rightarrow> string option" where
  "throws f i = (case f of Some (j, m) \<Rightarrow> if j = i then Some m else None | None \<Rightarrow> None)"

section \<open>Token helpers (helper module)\<close>

definition generateAccessToken :: "env \<Rightarrow> int \<Rightarrow> payload \<Rightarrow> string + tokstr" where
  "generateAccessToken e now pl =
     jwt_sign \<lparr>jwt_id = jwt_id pl, jwt_email = jwt_email pl, jwt_role = jwt_role pl\<rparr>
       (JWT_SECRET e) (ExpiresIn (JWT_ACCESS_EXPIRATION e)) now"

definition generateAdminToken :: "env \<Rightarrow> int \<Rightarrow> payload \<Rightarrow> string + tokstr" where
  "generateAdminToken e now pl =
     jwt_sign \<lparr>jwt_id = jwt_id pl, jwt_email = jwt_email pl, jwt_role = jwt_role pl\<rparr>
       (JWT_SECRET e) NoOptions now"

text \<open>\<^verbatim>\<open>expiresIn: "7d"\<close> is 604800 seconds.\<close>

definition generateRefreshToken :: "env \<Rightarrow> int \<Rightarrow> int \<Rightarrow> string + tokstr" where
  "generateRefreshToken e now uid =
     jwt_sign \<lparr>jwt_id = uid, jwt_email = None, jwt_role = None\<rparr>
       (JWT_REFRESH_SECRET e) (ExpiresIn (Some 604800)) now"

text \<open>
  \<^verbatim>\<open>verifyToken(token, secret = ACCESS_SECRET)\<close> of the helper module: \<open>None\<close> is the
  \<^verbatim>\<open>null\<close> returned from the \<^verbatim>\<open>catch\<close>.
\<close>

definition helper_verifyToken :: "env \<Rightarrow> int \<Rightarrow> tokstr \<Rightarrow> string option \<Rightarrow> claims option" where
  "helper_verifyToken e now token secret =
     (case jwt_verify token (case secret of None \<Rightarrow> JWT_SECRET e | Some s \<Rightarrow> s) now of
        Inr decoded \<Rightarrow> Some decoded
      | Inl err \<Rightarrow> None)"

section \<open>POST /auth/login\<close>

record login_body =
  email :: "string option"
  password :: "string option"

text \<open>\<^verbatim>\<open>SELECT * FROM users WHERE email = $1\<close>, first row.\<close>

definition user_by_email :: "store \<Rightarrow> string option \<Rightarrow> user option" where
  "user_by_email st v = find (\<lambda>u. Some (u_email u) = v) (users st)"

definition error_json :: "string \<Rightarrow> json" where
  "error_json m = JObj [(''status'', JStr ''error''), (''message'', JStr m)]"

definition login_500 :: "string \<Rightarrow> response" where
  "login_500 m = reply 500 (error_json (''Internal server error: '' @ m))"

text \<open>Lines 131 to 144: the admin branch signs without \<^verbatim>\<open>expiresIn\<close>.\<close>

definition login_accessToken :: "env \<Rightarrow> int \<Rightarrow> user \<Rightarrow> string + tokstr" where
  "login_accessToken e now usr =
     (if toLowerCase (u_role usr) = ''admin''
      then jwt_sign \<lparr>jwt_id = u_id usr, jwt_email = Some (u_email usr),
                      jwt_role = Some (u_role usr)\<rparr> (JWT_SECRET e) NoOptions now
      else generateAccessToken e now
             \<lparr>jwt_id = u_id usr, jwt_email = Some (u_email usr), jwt_role = Some (u_role usr)\<rparr>)"

text \<open>Lines 150 to 170: the DELETE, the INSERT and the answer.\<close>

definition login_save :: "int \<Rightarrow> fault \<Rightarrow> store \<Rightarrow> user \<Rightarrow> tokstr \<Rightarrow> tokstr \<Rightarrow> response \<times> store" where
  "login_save now f st usr accessToken refreshToken =
     (case throws f 1 of
        Some m \<Rightarrow> (login_500 m, st)
      | None \<Rightarrow>
         (let st1 = st\<lparr>tokens := filter (\<lambda>t. t_user_id t \<noteq> u_id usr) (tokens st)\<rparr> in
          (case throws f 2 of
             Some m \<Rightarrow> (login_500 m, st1)
           | None \<Rightarrow>
              (reply 200
                 (JObj [(''status'', JStr ''success''),
                        (''message'', JStr ''Login berhasil''),
                        (''data'', JObj [(''id'', JNum (of_int (u_id usr))),
                                         (''fullname'', JStr (u_fullname usr)),
                                         (''email'', JStr (u_email usr)),
                                         (''role'', JStr (u_role usr))]),
                        (''accessToken'', JTok accessToken),
                        (''refreshToken'', JTok refreshToken)]),
               st1\<lparr>tokens := tokens st1 @
                     [\<lparr>t_user_id = u_id usr, t_token = accessToken,
                       t_refresh_token = refreshToken, t_created_at = now\<rparr>]\<rparr>))))"

definition login_tokens :: "env \<Rightarrow> int \<Rightarrow> fault \<Rightarrow> store \<Rightarrow> user \<Rightarrow> response \<times> store" where
  "login_tokens e now f st usr =
     (case login_accessToken e now usr of
        Inl m \<Rightarrow> (login_500 m, st)
      | Inr accessToken \<Rightarrow>
         (case generateRefreshToken e now (u_id usr) of
            Inl m \<Rightarrow> (login_500 m, st)
          | Inr refreshToken \<Rightarrow> login_save now f st usr accessToken refreshToken))"

definition login ::
  "(string \<Rightarrow> string \<Rightarrow> bool) \<Rightarrow> env \<Rightarrow> int \<Rightarrow> fault \<Rightarrow> store \<Rightarrow> login_body \<Rightarrow> response \<times> store" where
  "login cmp e now f st b =
     (case throws f 0 of
        Some m \<Rightarrow> (login_500 m, st)
      | None \<Rightarrow>
         (case user_by_email st (email b) of
            None \<Rightarrow> (reply 400 (error_json ''Email tidak ditemukan''), st)
          | Some usr \<Rightarrow>
             (case compare cmp (password b) (u_password usr) of
                Inl m \<Rightarrow> (login_500 m, st)
              | Inr match \<Rightarrow>
                 if \<not> match then (reply 400 (error_json ''Password salah''), st)
                 else login_tokens e now f st usr)))"

section \<open>Middleware: verifyToken\<close>

text \<open>
  The value of the \<^verbatim>\<open>authorization\<close> header: \<open>Bearer t\<close> is \<^verbatim>\<open>"Bearer "\<close> followed by
  \<open>t\<close>, \<open>Bare t\<close> is \<open>t\<close> alone. \<open>strip_bearer\<close> is the
  \<^verbatim>\<open>startsWith("Bearer ")\<close> test with \<^verbatim>\<open>slice(7)\<close>.
\<close>

datatype authorization = Bearer tokstr | Bare tokstr

fun strip_bearer :: "authorization \<Rightarrow> tokstr" where
  "strip_bearer (Bearer t) = t"
| "strip_bearer (Bare (Text s)) = (if take 7 s = ''Bearer '' then Text (drop 7 s) else Text s)"
| "strip_bearer (Bare (Jws c k)) = Jws c k"

text \<open>\<^verbatim>\<open>req.user\<close>, as the token stage sets it.\<close>

record identity =
  ident_id :: int
  ident_role :: "string option"

record request =
  headers_authorization :: "authorization option"
  req_user :: "identity option"

definition verifyToken :: "env \<Rightarrow> int \<Rightarrow> request \<Rightarrow> response + request" where
  "verifyToken e now req =
     (case headers_authorization req of
        None \<Rightarrow> Inl (reply 401 (error_json ''Token tidak ditemukan atau belum login''))
      | Some h \<Rightarrow>
         if h = Bare (Text [])
         then Inl (reply 401 (error_json ''Token tidak ditemukan atau belum login''))
         else
          (case jwt_verify (strip_bearer h) (JWT_SECRET e) now of
             Inr decoded \<Rightarrow>
               Inr (req\<lparr>req_user :=
                      Some \<lparr>ident_id = jwt_id decoded, ident_role = jwt_role decoded\<rparr>\<rparr>)
           | Inl m \<Rightarrow>
               if m = ''jwt expired''
               then Inl (reply 401 (error_json ''Token kadaluarsa, silakan login ulang''))
               else Inl (reply 401 (error_json (''Token invalid: '' @ m)))))"

section \<open>Middleware: verifyRole\<close>

text \<open>\<^verbatim>\<open>SELECT role, _is_active_disabled FROM users WHERE id = $1\<close>, first row.\<close>

definition user_by_id :: "store \<Rightarrow> int \<Rightarrow> user option" where
  "user_by_id st v = find (\<lambda>u. u_id u = v) (users st)"

text \<open>\<^verbatim>\<open>!userId\<close> holds when \<^verbatim>\<open>req.user\<close> is missing or its \<^verbatim>\<open>id\<close> is 0.\<close>

definition verifyRole :: "string list \<Rightarrow> fault \<Rightarrow> store \<Rightarrow> request \<Rightarrow> response + request" where
  "verifyRole allowedRoles f st req =
     (case req_user req of
        None \<Rightarrow> Inl (reply 401 (error_json ''User tidak valid''))
      | Some ident \<Rightarrow>
         if ident_id ident = 0 then Inl (reply 401 (error_json ''User tidak valid''))
         else
          (case throws f 0 of
             Some m \<Rightarrow> Inl (reply 500 (error_json ''Internal server error''))
           | None \<Rightarrow>
              (case user_by_id st (ident_id ident) of
                 None \<Rightarrow> Inl (reply 404 (error_json ''User tidak ditemukan''))
               | Some usr \<Rightarrow>
                  if u_is_active_disabled usr = Some True
                  then Inl (reply 403 (error_json ''Akun Anda telah dinonaktifkan''))
                  else if toLowerCase (u_role usr) \<notin> set allowedRoles
                  then Inl (reply 403 (error_json
                         (''Akses ditolak: role '' @ [CHR 0x27] @ u_role usr @ [CHR 0x27]
                            @ '' tidak memiliki izin'')))
                  else Inr req)))"

text \<open>
  \<^verbatim>\<open>app.use(path, verifyToken, verifyRole(allowed), router)\<close>: what a protected route
  does before its handler runs. \<open>Inr\<close> is the call of \<^verbatim>\<open>next()\<close>.
\<close>

definition protected :: "string list \<Rightarrow> env \<Rightarrow> int \<Rightarrow> fault \<Rightarrow> store \<Rightarrow> request \<Rightarrow> response + request" where
  "protected allowedRoles e now f st req =
     (case verifyToken e now req of
        Inl r \<Rightarrow> Inl r
      | Inr req' \<Rightarrow> verifyRole allowedRoles f st req')"

section \<open>PUT /users/:id\<close>

text \<open>A body field that is absent or \<^verbatim>\<open>null\<close> reaches the store as NULL: \<open>None\<close>.\<close>

record user_body =
  ub_fullname :: "string option"
  ub_username :: "string option"
  ub_email :: "string option"
  ub_role :: "string option"
  ub_is_active_disabled :: "bool option"

definition COALESCE :: "'a option \<Rightarrow> 'a option \<Rightarrow> 'a option" where
  "COALESCE v w = (case v of None \<Rightarrow> w | Some x \<Rightarrow> Some x)"

text \<open>The same on a column that holds no NULL.\<close>

definition COALESCE_col :: "'a option \<Rightarrow> 'a \<Rightarrow> 'a" where
  "COALESCE_col v old = (case v of None \<Rightarrow> old | Some x \<Rightarrow> x)"

definition update_user :: "user_body \<Rightarrow> user \<Rightarrow> user" where
  "update_user b u =
     u\<lparr>u_fullname := COALESCE_col (ub_fullname b) (u_fullname u),
       u_username := COALESCE_col (ub_username b) (u_username u),
       u_email := COALESCE_col (ub_email b) (u_email u),
       u_role := COALESCE_col (ub_role b) (u_role u),
       u_is_active_disabled := COALESCE (ub_is_active_disabled b) (u_is_active_disabled u)\<rparr>"

definition json_bool :: "bool option \<Rightarrow> json" where
  "json_bool v = (case v of None \<Rightarrow> JNull | Some x \<Rightarrow> JBool x)"

definition json_int :: "int option \<Rightarrow> json" where
  "json_int v = (case v of None \<Rightarrow> JNull | Some x \<Rightarrow> JNum (of_int x))"


definition put_user :: "fault \<Rightarrow> store \<Rightarrow> int \<Rightarrow> user_body \<Rightarrow> response \<times> store" where
  "put_user f st ident b =
     (case throws f 0 of
        Some m \<Rightarrow> (reply 500 (error_json m), st)
      | None \<Rightarrow>
         (case filter (\<lambda>u. u_id u = ident) (users st) of
            [] \<Rightarrow> (reply 404 (error_json ''User tidak ditemukan''), st)
          | u # _ \<Rightarrow>
             (reply 200
                (JObj [(''status'', JStr ''success''),
                       (''message'', JStr ''User berhasil diperbarui''),
                       (''data'',
                        JObj [(''id'', JNum (of_int (u_id u))),
                              (''fullname'', JStr (u_fullname (update_user b u))),
                              (''username'', JStr (u_username (update_user b u))),
                              (''email'', JStr (u_email (update_user b u))),
                              (''role'', JStr (u_role (update_user b u))),
                              (''_is_active_disabled'',
                               json_bool (u_is_active_disabled (update_user b u)))])]),
              st\<lparr>users := map (\<lambda>u. if u_id u = ident then update_user b u else u) (users st)\<rparr>)))"

section \<open>PUT /orders/:id\<close>





section \<open>Products\<close>

text \<open>
  The request body, typed as the route documents it (\<^verbatim>\<open>id\<close> integer, \<^verbatim>\<open>price\<close> number,
  the rest strings, \<^verbatim>\<open>available\<close> boolean); \<open>None\<close> is a field that is absent or
  \<^verbatim>\<open>null\<close>.
\<close>

record product_body =
  pb_id :: "int option"
  pb_name :: "string option"
  pb_price :: "rat option"
  pb_size :: "string option"
  pb_color :: "string option"
  pb_category :: "string option"
  pb_available :: "bool option"

definition ALLOWED_TYPES :: "string list" where
  "ALLOWED_TYPES = [''clothing'', ''accessory'']"

text \<open>\<^verbatim>\<open>!v\<close> on a number and on a string.\<close>

definition falsy_num :: "int option \<Rightarrow> bool" where
  "falsy_num v = (v = None \<or> v = Some 0)"

definition falsy_str :: "string option \<Rightarrow> bool" where
  "falsy_str v = (v = None \<or> v = Some [])"

text \<open>
  \<open>None\<close> is the \<^verbatim>\<open>null\<close> of a valid body. \<^verbatim>\<open>isNaN(price)\<close> is false of every number a
  JSON body can hold, which leaves \<^verbatim>\<open>price < 0\<close>.
\<close>

definition validateProductInput :: "product_body \<Rightarrow> string option" where
  \<open>validateProductInput b =
     (if falsy_num (pb_id b) \<or> falsy_str (pb_name b) \<or> falsy_str (pb_size b)
         \<or> falsy_str (pb_color b) \<or> falsy_str (pb_category b) \<or> pb_price b = None
      then Some ''Semua field wajib diisi''
      else if pb_category b \<notin> set (map Some ALLOWED_TYPES)
      then Some ''category harus "clothing" atau "accessory"''
      else if (case pb_price b of None \<Rightarrow> False | Some x \<Rightarrow> x < 0)
      then Some ''price harus angka valid dan tidak negatif''
      else None)\<close>

text \<open>
  A connection taken from the pool: the committed database and, while a transaction is
  open on the connection, the transaction's own copy. Statements of an open transaction
  work on the copy; nothing of it is in \<open>db\<close> before COMMIT.
\<close>

record client =
  db :: store
  tx :: "store option"

definition pool_connect :: "store \<Rightarrow> client" where
  "pool_connect st = \<lparr>db = st, tx = None\<rparr>"

definition BEGIN :: "client \<Rightarrow> client" where
  "BEGIN c = (case tx c of None \<Rightarrow> c\<lparr>tx := Some (db c)\<rparr> | Some w \<Rightarrow> c)"

definition COMMIT :: "client \<Rightarrow> client" where
  "COMMIT c = (case tx c of None \<Rightarrow> c | Some w \<Rightarrow> \<lparr>db = w, tx = None\<rparr>)"

definition ROLLBACK :: "client \<Rightarrow> client" where
  "ROLLBACK c = c\<lparr>tx := None\<rparr>"

definition on_client :: "(store \<Rightarrow> store) \<Rightarrow> client \<Rightarrow> client" where
  "on_client g c = (case tx c of None \<Rightarrow> c\<lparr>db := g (db c)\<rparr> | Some w \<Rightarrow> c\<lparr>tx := Some (g w)\<rparr>)"

definition seen :: "client \<Rightarrow> store" where
  "seen c = (case tx c of None \<Rightarrow> db c | Some w \<Rightarrow> w)"

text \<open>SQL \<^verbatim>\<open>MAX\<close>: NULL over no rows.\<close>

fun sql_max :: "int list \<Rightarrow> int option" where
  "sql_max [] = None"
| "sql_max (x # xs) = Some (fold max xs x)"

text \<open>\<^verbatim>\<open>SELECT COALESCE(MAX(id),0)+1 AS next_id FROM products\<close>\<close>

definition next_id :: "product list \<Rightarrow> int" where
  "next_id ps = (case sql_max (map p_id ps) of None \<Rightarrow> 0 | Some m \<Rightarrow> m) + 1"

definition product_json :: "product \<Rightarrow> json" where
  "product_json r =
     JObj [(''id'', JNum (of_int (p_id r))),
           (''name'', JStr (p_name r)),
           (''price'', JNum (p_price r)),
           (''size'', JStr (p_size r)),
           (''color'', JStr (p_color r)),
           (''category'', JStr (p_category r)),
           (''available'', JBool (p_available r)),
           (''stock'', json_int (p_stock r))]"

text \<open>
  The row of the INSERT. The column \<^verbatim>\<open>stock\<close> is not in the column list and takes
  the default of the schema, \<open>stock_default\<close>.
\<close>

definition new_product :: "int option \<Rightarrow> int \<Rightarrow> product_body \<Rightarrow> product" where
  "new_product stock_default nextId b =
     \<lparr>p_id = nextId, p_name = the (pb_name b), p_price = the (pb_price b),
      p_size = the (pb_size b), p_color = the (pb_color b), p_category = the (pb_category b),
      p_available = True, p_stock = stock_default\<rparr>"

text \<open>
  The \<^verbatim>\<open>try\<close> block of POST /products, statement by statement: BEGIN (0), LOCK TABLE (1),
  SELECT (2), INSERT (3), COMMIT (4). \<open>Inl c\<close> is an exception thrown with the connection
  in state \<open>c\<close>; \<open>Inr (row, c)\<close> is the row the INSERT returns.
\<close>

definition post_product_try :: "int option \<Rightarrow> fault \<Rightarrow> client \<Rightarrow> product_body \<Rightarrow> client + product \<times> client" where
  "post_product_try stock_default f c b =
     (case throws f 0 of Some m \<Rightarrow> Inl c | None \<Rightarrow>
       (let c1 = BEGIN c in
        (case throws f 1 of Some m \<Rightarrow> Inl c1 | None \<Rightarrow>
          (case throws f 2 of Some m \<Rightarrow> Inl c1 | None \<Rightarrow>
            (let nextId = next_id (products (seen c1)) in
             (case throws f 3 of Some m \<Rightarrow> Inl c1 | None \<Rightarrow>
               (let row = new_product stock_default nextId b;
                    c2 = on_client (\<lambda>s. s\<lparr>products := products s @ [row]\<rparr>) c1 in
                (case throws f 4 of Some m \<Rightarrow> Inl c2 | None \<Rightarrow>
                  Inr (row, COMMIT c2)))))))))"

text \<open>
  POST /products. \<open>rollback_error\<close> is the error the \<^verbatim>\<open>await client.query('ROLLBACK')\<close> of
  the \<^verbatim>\<open>catch\<close> block throws when it runs, \<open>None\<close> when it succeeds. When it throws, the
  exception leaves the \<^verbatim>\<open>catch\<close> block before \<^verbatim>\<open>res.status(500)\<close>: the handler sends no
  reply, which is the reply \<open>None\<close>, and the transaction stays as it was. The
  \<^verbatim>\<open>finally\<close> block releases the connection in every case; the result holds it as it
  is released, and its \<open>db\<close> is the store every later request sees.
\<close>

definition post_product ::
  "int option \<Rightarrow> fault \<Rightarrow> string option \<Rightarrow> store \<Rightarrow> product_body \<Rightarrow> response option \<times> client" where
  "post_product stock_default f rollback_error st b =
     (case validateProductInput b of
        Some err \<Rightarrow> (Some (reply 400 (JObj [(''error'', JStr err)])), pool_connect st)
      | None \<Rightarrow>
         (case post_product_try stock_default f (pool_connect st) b of
            Inr (row, c) \<Rightarrow> (Some (reply 201 (product_json row)), c)
          | Inl c \<Rightarrow>
             (case rollback_error of
                None \<Rightarrow> (Some (reply 500 (JObj [(''error'', JStr ''Server error'')])), ROLLBACK c)
              | Some m \<Rightarrow> (None, c))))"



section \<open>Sample data\<close>

definition demo_env :: env where
  "demo_env = \<lparr>JWT_SECRET = ''s3cret'', JWT_REFRESH_SECRET = ''r3fresh'',
               JWT_ACCESS_EXPIRATION = Some 3600\<rparr>"

definition demo_admin :: user where
  "demo_admin = \<lparr>u_id = 1, u_fullname = ''Ayu'', u_username = ''ayu'', u_email = ''ayu@toko.id'',
      u_password = ''h1'', u_role = ''Admin'', u_phone = None, u_address = None,
      u_is_active_disabled = None\<rparr>"

definition demo_cashier :: user where
  "demo_cashier = \<lparr>u_id = 2, u_fullname = ''Budi'', u_username = ''budi'', u_email = ''budi@toko.id'',
      u_password = ''h2'', u_role = ''cashier'', u_phone = None, u_address = None,
      u_is_active_disabled = Some False\<rparr>"

definition demo_store :: store where
  "demo_store = \<lparr>users = [demo_admin, demo_cashier], tokens = [], orders = [], products = []\<rparr>"

text \<open>A sequence of login requests, each with its time and the fault the store shows it.\<close>

fun run_logins ::
  "(string \<Rightarrow> string \<Rightarrow> bool) \<Rightarrow> env \<Rightarrow> store \<Rightarrow> (int \<times> fault \<times> login_body) list \<Rightarrow> store" where
  "run_logins cmp e st [] = st"
| "run_logins cmp e st ((now, f, b) # rs) = run_logins cmp e (snd (login cmp e now f st b)) rs"

definition demo_login :: login_body where
  "demo_login = \<lparr>email = Some ''budi@toko.id'', password = Some ''h2''\<rparr>"

definition demo_claims :: claims where
  "demo_claims = \<lparr>jwt_id = 2, jwt_email = Some ''budi@toko.id'', jwt_role = Some ''cashier'',
                   jwt_iat = 1000, jwt_exp = Some 4600\<rparr>"

definition demo_request :: "authorization option \<Rightarrow> request" where
  "demo_request h = \<lparr>headers_authorization = h, req_user = None\<rparr>"

definition demo_ban :: user_body where
  "demo_ban = \<lparr>ub_fullname = None, ub_username = None, ub_email = None, ub_role = None,
               ub_is_active_disabled = Some True\<rparr>"

definition demo_shirt :: product where
  "demo_shirt = \<lparr>p_id = 4, p_name = ''Kemeja'', p_price = 120000, p_size = ''L'', p_color = ''biru'',
                  p_category = ''clothing'', p_available = True, p_stock = Some 3\<rparr>"

definition demo_belt :: product where
  "demo_belt = \<lparr>p_id = 9, p_name = ''Sabuk'', p_price = 45000, p_size = ''M'', p_color = ''hitam'',
                 p_category = ''accessory'', p_available = False, p_stock = Some 0\<rparr>"

definition demo_shop :: store where
  "demo_shop = demo_store\<lparr>products := [demo_belt, demo_shirt]\<rparr>"

definition demo_hat :: product_body where
  "demo_hat = \<lparr>pb_id = Some 4, pb_name = Some ''Topi'', pb_price = Some 30000, pb_size = Some ''S'',
                pb_color = Some ''merah'', pb_category = Some ''accessory'', pb_available = None\<rparr>"



section \<open>Login: what a successful login has done\<close>

lemmas login_defs = login_def user_by_email_def login_tokens_def login_save_def login_accessToken_def
  generateAccessToken_def generateRefreshToken_def jwt_sign_def compare_def throws_def
  toLowerCase_def lower_char_def reply_def field_def

lemmas demo_defs = demo_env_def demo_admin_def demo_cashier_def demo_store_def

lemma status_reply [simp]: "status (reply n v) = n"
  by (simp add: reply_def)

lemma body_reply [simp]: "body (reply n v) = v"
  by (simp add: reply_def)

lemma status_login_500 [simp]: "status (login_500 m) = 500"
  by (simp add: login_500_def)

lemma login_save_200:
  assumes "login_save now f st usr a r = (res, st')" and "status res = 200"
  shows "field ''accessToken'' (body res) = Some (JTok a)
       \<and> field ''refreshToken'' (body res) = Some (JTok r)
       \<and> st' = st\<lparr>tokens := filter (\<lambda>t. t_user_id t \<noteq> u_id usr) (tokens st) @
                     [\<lparr>t_user_id = u_id usr, t_token = a, t_refresh_token = r, t_created_at = now\<rparr>]\<rparr>"
  using assms
  by (auto simp: login_save_def Let_def field_def split: option.splits)

lemma login_tokens_200:
  assumes "login_tokens e now f st usr = (res, st')" and "status res = 200"
  shows "\<exists>a r. login_accessToken e now usr = Inr a
       \<and> generateRefreshToken e now (u_id usr) = Inr r
       \<and> login_save now f st usr a r = (res, st')"
  using assms
  by (auto simp: login_tokens_def split: sum.splits)

lemma login_200:
  assumes "login cmp e now f st b = (res, st')" and "status res = 200"
  shows "\<exists>usr pw. user_by_email st (email b) = Some usr
       \<and> password b = Some pw \<and> cmp pw (u_password usr)
       \<and> login_tokens e now f st usr = (res, st')"
  using assms
  by (auto simp: login_def compare_def split: option.splits sum.splits if_splits)

lemma login_accessToken_Inr:
  assumes "login_accessToken e now usr = Inr a"
  shows "\<exists>c. a = Jws c (JWT_SECRET e) \<and> JWT_SECRET e \<noteq> []
     \<and> jwt_id c = u_id usr \<and> jwt_email c = Some (u_email usr) \<and> jwt_role c = Some (u_role usr)
     \<and> jwt_iat c = now
     \<and> jwt_exp c = (if toLowerCase (u_role usr) = ''admin'' then None
                    else map_option (\<lambda>d. now + d) (JWT_ACCESS_EXPIRATION e))
     \<and> (toLowerCase (u_role usr) \<noteq> ''admin'' \<longrightarrow> JWT_ACCESS_EXPIRATION e \<noteq> None)"
  using assms
  by (auto simp: login_accessToken_def generateAccessToken_def jwt_sign_def
           split: if_splits option.splits sign_options.splits)

text \<open>
  The admin branch of the login signs as \<open>generateAdminToken\<close> does, which the route
  does not call.
\<close>

lemma login_accessToken_admin:
  "toLowerCase (u_role usr) = ''admin'' \<Longrightarrow>
     login_accessToken e now usr
       = generateAdminToken e now
           \<lparr>jwt_id = u_id usr, jwt_email = Some (u_email usr), jwt_role = Some (u_role usr)\<rparr>"
  by (simp add: login_accessToken_def generateAdminToken_def)

text \<open>
  C1. A login that answers 200 has found the user row of the given email, and the access
  token in the answer is signed with the access secret and carries that user's id and
  role. When the stored role, in lower case, is \<^verbatim>\<open>admin\<close>, the token has no \<^verbatim>\<open>exp\<close>
  claim and verifies at every time; for every other role the configured duration \<open>d\<close>
  exists, \<^verbatim>\<open>exp\<close> is the time of the login plus \<open>d\<close>, and the token verifies before that
  time and is reported expired from then on.
\<close>

theorem login_access_token_expiry:
  assumes "login cmp e now f st b = (res, st')" and "status res = 200"
  shows "\<exists>usr c. user_by_email st (email b) = Some usr
      \<and> field ''accessToken'' (body res) = Some (JTok (Jws c (JWT_SECRET e)))
      \<and> jwt_id c = u_id usr \<and> jwt_role c = Some (u_role usr)
      \<and> (if toLowerCase (u_role usr) = ''admin''
         then jwt_exp c = None
            \<and> (\<forall>t. jwt_verify (Jws c (JWT_SECRET e)) (JWT_SECRET e) t = Inr c)
         else \<exists>d. JWT_ACCESS_EXPIRATION e = Some d \<and> jwt_exp c = Some (now + d)
            \<and> (\<forall>t. jwt_verify (Jws c (JWT_SECRET e)) (JWT_SECRET e) t =
                     (if now + d \<le> t then Inl ''jwt expired'' else Inr c)))"
proof -
  from login_200 [OF assms] obtain usr pw where
    usr: "user_by_email st (email b) = Some usr"
    and toks: "login_tokens e now f st usr = (res, st')"
    by blast
  from login_tokens_200 [OF toks assms(2)] obtain a r where
    a: "login_accessToken e now usr = Inr a"
    and save: "login_save now f st usr a r = (res, st')"
    by blast
  from login_save_200 [OF save assms(2)]
  have fld: "field ''accessToken'' (body res) = Some (JTok a)" by simp
  from login_accessToken_Inr [OF a] obtain c where
    c: "a = Jws c (JWT_SECRET e)" "JWT_SECRET e \<noteq> []" "jwt_id c = u_id usr"
       "jwt_role c = Some (u_role usr)"
       "jwt_exp c = (if toLowerCase (u_role usr) = ''admin'' then None
                     else map_option (\<lambda>d. now + d) (JWT_ACCESS_EXPIRATION e))"
       "toLowerCase (u_role usr) \<noteq> ''admin'' \<longrightarrow> JWT_ACCESS_EXPIRATION e \<noteq> None"
    by blast
  have "if toLowerCase (u_role usr) = ''admin''
         then jwt_exp c = None
            \<and> (\<forall>t. jwt_verify (Jws c (JWT_SECRET e)) (JWT_SECRET e) t = Inr c)
         else \<exists>d. JWT_ACCESS_EXPIRATION e = Some d \<and> jwt_exp c = Some (now + d)
            \<and> (\<forall>t. jwt_verify (Jws c (JWT_SECRET e)) (JWT_SECRET e) t =
                     (if now + d \<le> t then Inl ''jwt expired'' else Inr c))"
    using c(2,5,6) by auto
  with usr fld c(1,3,4) show ?thesis by blast
qed

text \<open>
  The theorem at two logins on the sample store: the user whose role is stored as
  \<^verbatim>\<open>Admin\<close> gets a token without \<^verbatim>\<open>exp\<close>, the cashier one that expires 3600 seconds
  after the login at time 1000.
\<close>

theorem login_access_token_expiry_witness:
  "(\<exists>c k. field ''accessToken'' (body (fst (login (=) demo_env 1000 None demo_store
              \<lparr>email = Some ''ayu@toko.id'', password = Some ''h1''\<rparr>))) = Some (JTok (Jws c k))
          \<and> jwt_exp c = None)
 \<and> (\<exists>c k. field ''accessToken'' (body (fst (login (=) demo_env 1000 None demo_store
              \<lparr>email = Some ''budi@toko.id'', password = Some ''h2''\<rparr>))) = Some (JTok (Jws c k))
          \<and> jwt_exp c = Some 4600)"
proof -
  let ?A = "login (=) demo_env 1000 None demo_store
              \<lparr>email = Some ''ayu@toko.id'', password = Some ''h1''\<rparr>"
  let ?B = "login (=) demo_env 1000 None demo_store
              \<lparr>email = Some ''budi@toko.id'', password = Some ''h2''\<rparr>"
  have sa: "status (fst ?A) = 200" by (simp add: login_defs demo_defs)
  have sb: "status (fst ?B) = 200" by (simp add: login_defs demo_defs)
  have ua: "user_by_email demo_store (Some ''ayu@toko.id'') = Some demo_admin"
    by (simp add: user_by_email_def demo_defs)
  have ub: "user_by_email demo_store (Some ''budi@toko.id'') = Some demo_cashier"
    by (simp add: user_by_email_def demo_defs)
  have la: "toLowerCase (u_role demo_admin) = ''admin''"
    by (simp add: demo_defs toLowerCase_def lower_char_def)
  have lb: "toLowerCase (u_role demo_cashier) \<noteq> ''admin''"
    by (simp add: demo_defs toLowerCase_def lower_char_def)
  from login_access_token_expiry [of "(=)" demo_env 1000 None demo_store _ "fst ?A" "snd ?A", OF _ sa]
    ua la
  have 1: "\<exists>c k. field ''accessToken'' (body (fst ?A)) = Some (JTok (Jws c k)) \<and> jwt_exp c = None"
    by fastforce
  from login_access_token_expiry [of "(=)" demo_env 1000 None demo_store _ "fst ?B" "snd ?B", OF _ sb]
    ub lb
  have 2: "\<exists>c k. field ''accessToken'' (body (fst ?B)) = Some (JTok (Jws c k)) \<and> jwt_exp c = Some 4600"
    by (fastforce simp: demo_env_def)
  from 1 2 show ?thesis by blast
qed

section \<open>Login: one token pair per user\<close>

lemma login_tokens_effect:
  "tokens (snd (login cmp e now f st b)) = tokens st
   \<or> (\<exists>uid. tokens (snd (login cmp e now f st b)) = filter (\<lambda>t. t_user_id t \<noteq> uid) (tokens st))
   \<or> (\<exists>uid row. t_user_id row = uid
        \<and> tokens (snd (login cmp e now f st b)) = filter (\<lambda>t. t_user_id t \<noteq> uid) (tokens st) @ [row])"
  by (auto simp: login_def login_tokens_def login_save_def Let_def
           split: option.splits sum.splits)

lemma login_keeps_distinct:
  assumes "distinct (map t_user_id (tokens st))"
  shows "distinct (map t_user_id (tokens (snd (login cmp e now f st b))))"
  using login_tokens_effect [of cmp e now f st b] assms
  by (auto simp: distinct_map_filter)

lemma run_logins_keeps_distinct:
  "distinct (map t_user_id (tokens st)) \<Longrightarrow> distinct (map t_user_id (tokens (run_logins cmp e st rs)))"
proof (induction rs arbitrary: st)
  case Nil
  then show ?case by simp
next
  case (Cons r rs)
  obtain now f b where r: "r = (now, f, b)" by (cases r)
  from Cons.prems have "distinct (map t_user_id (tokens (snd (login cmp e now f st b))))"
    by (rule login_keeps_distinct)
  then show ?case unfolding r by (simp add: Cons.IH)
qed

lemma login_200_tokens:
  assumes "login cmp e now f st b = (res, st')" and "status res = 200"
  shows "\<exists>usr a r. user_by_email st (email b) = Some usr
        \<and> field ''accessToken'' (body res) = Some (JTok a)
        \<and> field ''refreshToken'' (body res) = Some (JTok r)
        \<and> tokens st' = filter (\<lambda>t. t_user_id t \<noteq> u_id usr) (tokens st) @
              [\<lparr>t_user_id = u_id usr, t_token = a, t_refresh_token = r, t_created_at = now\<rparr>]"
proof -
  from login_200 [OF assms] obtain usr where
    usr: "user_by_email st (email b) = Some usr"
    and toks: "login_tokens e now f st usr = (res, st')"
    by blast
  from login_tokens_200 [OF toks assms(2)] obtain a r where
    save: "login_save now f st usr a r = (res, st')"
    by blast
  from login_save_200 [OF save assms(2)] usr show ?thesis by auto
qed

lemma one_row_after_replace:
  "t_user_id row = uid \<Longrightarrow> filter (\<lambda>t. t_user_id t = uid) (filter (\<lambda>t. t_user_id t \<noteq> uid) ts @ [row]) = [row]"
  by (induction ts) auto

text \<open>
  C3. The token table holds at most one row per user (the user ids of its rows are
  distinct) after every sequence of logins, whatever each login answers and whichever
  store call fails in it, when it did before. A login that answers 200 leaves the rows of
  the other users as they were and exactly one row for its user: the pair it returned.
\<close>

theorem login_one_token_pair:
  "(distinct (map t_user_id (tokens st0)) \<longrightarrow>
      distinct (map t_user_id (tokens (run_logins cmp e st0 rs))))
 \<and> (login cmp e now f st b = (res, st') \<and> status res = 200 \<longrightarrow>
      (\<exists>usr row. user_by_email st (email b) = Some usr
         \<and> t_user_id row = u_id usr
         \<and> field ''accessToken'' (body res) = Some (JTok (t_token row))
         \<and> field ''refreshToken'' (body res) = Some (JTok (t_refresh_token row))
         \<and> tokens st' = filter (\<lambda>t. t_user_id t \<noteq> u_id usr) (tokens st) @ [row]
         \<and> filter (\<lambda>t. t_user_id t = u_id usr) (tokens st') = [row]))"
proof (intro conjI impI)
  assume "distinct (map t_user_id (tokens st0))"
  then show "distinct (map t_user_id (tokens (run_logins cmp e st0 rs)))"
    by (rule run_logins_keeps_distinct)
next
  assume a: "login cmp e now f st b = (res, st') \<and> status res = 200"
  from login_200_tokens [of cmp e now f st b res st'] a obtain usr a r where
    u: "user_by_email st (email b) = Some usr"
    and fa: "field ''accessToken'' (body res) = Some (JTok a)"
    and fr: "field ''refreshToken'' (body res) = Some (JTok r)"
    and t: "tokens st' = filter (\<lambda>t. t_user_id t \<noteq> u_id usr) (tokens st) @
              [\<lparr>t_user_id = u_id usr, t_token = a, t_refresh_token = r, t_created_at = now\<rparr>]"
    by blast
  let ?row = "\<lparr>t_user_id = u_id usr, t_token = a, t_refresh_token = r, t_created_at = now\<rparr>"
  have "filter (\<lambda>t. t_user_id t = u_id usr) (tokens st') = [?row]"
    unfolding t by (rule one_row_after_replace) simp
  with u fa fr t show "\<exists>usr row. user_by_email st (email b) = Some usr
         \<and> t_user_id row = u_id usr
         \<and> field ''accessToken'' (body res) = Some (JTok (t_token row))
         \<and> field ''refreshToken'' (body res) = Some (JTok (t_refresh_token row))
         \<and> tokens st' = filter (\<lambda>t. t_user_id t \<noteq> u_id usr) (tokens st) @ [row]
         \<and> filter (\<lambda>t. t_user_id t = u_id usr) (tokens st') = [row]"
    by (intro exI [of _ usr] exI [of _ ?row]) simp
qed

text \<open>
  On the sample store: three logins of the cashier, the second of which loses the
  connection at its INSERT, keep the user ids distinct; after two successful logins the
  cashier has one row.
\<close>

theorem login_one_token_pair_witness:
  "distinct (map t_user_id (tokens demo_store))
 \<and> distinct (map t_user_id (tokens (run_logins (=) demo_env demo_store
       [(1000, None, demo_login), (2000, Some (2, ''connection lost''), demo_login),
        (3000, None, demo_login)])))
 \<and> status (fst (login (=) demo_env 2000 None
       (snd (login (=) demo_env 1000 None demo_store demo_login)) demo_login)) = 200
 \<and> length (filter (\<lambda>t. t_user_id t = 2) (tokens (snd (login (=) demo_env 2000 None
       (snd (login (=) demo_env 1000 None demo_store demo_login)) demo_login)))) = 1"
proof -
  let ?s1 = "snd (login (=) demo_env 1000 None demo_store demo_login)"
  let ?L = "login (=) demo_env 2000 None ?s1 demo_login"
  have d: "distinct (map t_user_id (tokens demo_store))" by (simp add: demo_defs)
  have s: "status (fst ?L) = 200" by (simp add: login_defs demo_defs demo_login_def)
  have u: "user_by_email ?s1 (email demo_login) = Some demo_cashier"
    by (simp add: login_defs demo_defs demo_login_def)
  have i: "u_id demo_cashier = 2" by (simp add: demo_defs)
  note T = login_one_token_pair [of demo_store "(=)" demo_env
       "[(1000, None, demo_login), (2000, Some (2, ''connection lost''), demo_login),
        (3000, None, demo_login)]" 2000 None ?s1 demo_login "fst ?L" "snd ?L"]
  from T d have 1: "distinct (map t_user_id (tokens (run_logins (=) demo_env demo_store
       [(1000, None, demo_login), (2000, Some (2, ''connection lost''), demo_login),
        (3000, None, demo_login)])))" by blast
  from T s u i have 2: "length (filter (\<lambda>t. t_user_id t = 2) (tokens (snd ?L))) = 1"
    by auto
  from d 1 s 2 show ?thesis by blast
qed

section \<open>Login: unknown email, wrong password\<close>

text \<open>
  C5, as the claim states it, fails: on the sample store a login with an email no user has
  answers 400, not 404, and a login of an existing user with a password that does not
  match answers 400, not 401.
\<close>

theorem login_bad_credentials_counterexample:
  "user_by_email demo_store (Some ''nobody@toko.id'') = None
 \<and> status (fst (login (=) demo_env 1000 None demo_store
       \<lparr>email = Some ''nobody@toko.id'', password = Some ''h1''\<rparr>)) = 400
 \<and> user_by_email demo_store (Some ''ayu@toko.id'') = Some demo_admin
 \<and> ''wrong'' \<noteq> u_password demo_admin
 \<and> status (fst (login (=) demo_env 1000 None demo_store
       \<lparr>email = Some ''ayu@toko.id'', password = Some ''wrong''\<rparr>)) = 400"
  by (simp add: login_defs demo_defs error_json_def)

text \<open>
  C5, amended. When the SELECT does not fail: a login whose email no user row has answers
  400 with the message \<^verbatim>\<open>Email tidak ditemukan\<close>; a login whose user exists and whose
  password is given and does not match the stored hash answers 400 with the message
  \<^verbatim>\<open>Password salah\<close>. The store is left as it was in both.
\<close>

theorem login_bad_credentials:
  assumes "throws f 0 = None"
  shows "(user_by_email st (email b) = None \<longrightarrow>
            login cmp e now f st b = (reply 400 (error_json ''Email tidak ditemukan''), st))
       \<and> (\<forall>usr pw. user_by_email st (email b) = Some usr
              \<and> password b = Some pw \<and> \<not> cmp pw (u_password usr) \<longrightarrow>
            login cmp e now f st b = (reply 400 (error_json ''Password salah''), st))"
  using assms by (simp add: login_def compare_def)

theorem login_bad_credentials_witness:
  "login (=) demo_env 1000 None demo_store \<lparr>email = Some ''nobody@toko.id'', password = Some ''h1''\<rparr>
     = (reply 400 (error_json ''Email tidak ditemukan''), demo_store)
 \<and> login (=) demo_env 1000 None demo_store \<lparr>email = Some ''ayu@toko.id'', password = Some ''wrong''\<rparr>
     = (reply 400 (error_json ''Password salah''), demo_store)"
proof -
  have t: "throws None 0 = None" by (simp add: throws_def)
  have n: "user_by_email demo_store (email \<lparr>email = Some ''nobody@toko.id'', password = Some ''h1''\<rparr>) = None"
    by (simp add: user_by_email_def demo_defs)
  have u: "user_by_email demo_store (email \<lparr>email = Some ''ayu@toko.id'', password = Some ''wrong''\<rparr>) = Some demo_admin"
    by (simp add: user_by_email_def demo_defs)
  have p: "\<not> ''wrong'' = u_password demo_admin" by (simp add: demo_defs)
  from login_bad_credentials [OF t, where b = "\<lparr>email = Some ''nobody@toko.id'', password = Some ''h1''\<rparr>"
       and st = demo_store and cmp = "(=)" and e = demo_env and now = 1000] n
  have 1: "login (=) demo_env 1000 None demo_store \<lparr>email = Some ''nobody@toko.id'', password = Some ''h1''\<rparr>
     = (reply 400 (error_json ''Email tidak ditemukan''), demo_store)" by blast
  from login_bad_credentials [OF t, where b = "\<lparr>email = Some ''ayu@toko.id'', password = Some ''wrong''\<rparr>"
       and st = demo_store and cmp = "(=)" and e = demo_env and now = 1000] u p
  have 2: "login (=) demo_env 1000 None demo_store \<lparr>email = Some ''ayu@toko.id'', password = Some ''wrong''\<rparr>
     = (reply 400 (error_json ''Password salah''), demo_store)" by simp
  from 1 2 show ?thesis by blast
qed

section \<open>The token stage\<close>

lemma jwt_verify_expired_iff:
  "jwt_verify t s now = Inl ''jwt expired''
     \<longleftrightarrow> (\<exists>c x. t = Jws c s \<and> s \<noteq> [] \<and> jwt_exp c = Some x \<and> x \<le> now)"
  by (cases t) (auto split: option.splits)

lemma jwt_verify_ok_iff:
  "jwt_verify t s now = Inr c
     \<longleftrightarrow> t = Jws c s \<and> s \<noteq> [] \<and> (\<forall>x. jwt_exp c = Some x \<longrightarrow> now < x)"
  by (cases t) (auto split: option.splits)

lemma expired_message_distinct:
  "reply 401 (error_json ''Token kadaluarsa, silakan login ulang'')
     \<noteq> reply 401 (error_json (''Token invalid: '' @ m))"
  by (simp add: reply_def error_json_def)

lemma verifyToken_status: "verifyToken e now req = Inl r \<Longrightarrow> status r = 401"
  by (auto simp: verifyToken_def split: option.splits if_splits sum.splits)

text \<open>
  C6. The token stage answers 401 with the message for a missing token when the request
  has no authorization header, and every answer it gives itself has status 401. A token
  signed with the access secret whose \<^verbatim>\<open>exp\<close> has been reached gets the message
  \<^verbatim>\<open>Token kadaluarsa, silakan login ulang\<close>; every other verification failure gets
  \<^verbatim>\<open>Token invalid: \<close> followed by the library's message, an answer different from
  the one for expiry. A token signed with the access secret that has not expired passes,
  and \<^verbatim>\<open>req.user\<close> becomes the id and the role of its claims.
\<close>

theorem verifyToken_stage:
  "(headers_authorization req = None \<longrightarrow>
      verifyToken e now req = Inl (reply 401 (error_json ''Token tidak ditemukan atau belum login'')))
 \<and> (\<forall>r. verifyToken e now req = Inl r \<longrightarrow> status r = 401)
 \<and> (\<forall>h c x. headers_authorization req = Some h \<and> strip_bearer h = Jws c (JWT_SECRET e)
        \<and> JWT_SECRET e \<noteq> [] \<and> jwt_exp c = Some x \<and> x \<le> now \<longrightarrow>
      verifyToken e now req = Inl (reply 401 (error_json ''Token kadaluarsa, silakan login ulang'')))
 \<and> (\<forall>h m. headers_authorization req = Some h \<and> h \<noteq> Bare (Text [])
        \<and> jwt_verify (strip_bearer h) (JWT_SECRET e) now = Inl m \<and> m \<noteq> ''jwt expired'' \<longrightarrow>
      verifyToken e now req = Inl (reply 401 (error_json (''Token invalid: '' @ m)))
      \<and> verifyToken e now req \<noteq> Inl (reply 401 (error_json ''Token kadaluarsa, silakan login ulang'')))
 \<and> (\<forall>h c. headers_authorization req = Some h \<and> strip_bearer h = Jws c (JWT_SECRET e)
        \<and> JWT_SECRET e \<noteq> [] \<and> (\<forall>x. jwt_exp c = Some x \<longrightarrow> now < x) \<longrightarrow>
      verifyToken e now req =
        Inr (req\<lparr>req_user := Some \<lparr>ident_id = jwt_id c, ident_role = jwt_role c\<rparr>\<rparr>))"
proof -
  have p1: "headers_authorization req = None \<longrightarrow>
      verifyToken e now req = Inl (reply 401 (error_json ''Token tidak ditemukan atau belum login''))"
    by (simp add: verifyToken_def)
  have p2: "\<forall>r. verifyToken e now req = Inl r \<longrightarrow> status r = 401"
    using verifyToken_status by blast
  have p3: "\<forall>h c x. headers_authorization req = Some h \<and> strip_bearer h = Jws c (JWT_SECRET e)
        \<and> JWT_SECRET e \<noteq> [] \<and> jwt_exp c = Some x \<and> x \<le> now \<longrightarrow>
      verifyToken e now req = Inl (reply 401 (error_json ''Token kadaluarsa, silakan login ulang''))"
  proof (intro allI impI)
    fix h c x
    assume a: "headers_authorization req = Some h \<and> strip_bearer h = Jws c (JWT_SECRET e)
        \<and> JWT_SECRET e \<noteq> [] \<and> jwt_exp c = Some x \<and> x \<le> now"
    then have "h \<noteq> Bare (Text [])" by auto
    with a show "verifyToken e now req = Inl (reply 401 (error_json ''Token kadaluarsa, silakan login ulang''))"
      by (simp add: verifyToken_def)
  qed
  have p4: "\<forall>h m. headers_authorization req = Some h \<and> h \<noteq> Bare (Text [])
        \<and> jwt_verify (strip_bearer h) (JWT_SECRET e) now = Inl m \<and> m \<noteq> ''jwt expired'' \<longrightarrow>
      verifyToken e now req = Inl (reply 401 (error_json (''Token invalid: '' @ m)))
      \<and> verifyToken e now req \<noteq> Inl (reply 401 (error_json ''Token kadaluarsa, silakan login ulang''))"
  proof (intro allI impI)
    fix h m
    assume a: "headers_authorization req = Some h \<and> h \<noteq> Bare (Text [])
        \<and> jwt_verify (strip_bearer h) (JWT_SECRET e) now = Inl m \<and> m \<noteq> ''jwt expired''"
    then have v: "verifyToken e now req = Inl (reply 401 (error_json (''Token invalid: '' @ m)))"
      by (simp add: verifyToken_def)
    then show "verifyToken e now req = Inl (reply 401 (error_json (''Token invalid: '' @ m)))
      \<and> verifyToken e now req \<noteq> Inl (reply 401 (error_json ''Token kadaluarsa, silakan login ulang''))"
      using expired_message_distinct [of m] by simp
  qed
  have p5: "\<forall>h c. headers_authorization req = Some h \<and> strip_bearer h = Jws c (JWT_SECRET e)
        \<and> JWT_SECRET e \<noteq> [] \<and> (\<forall>x. jwt_exp c = Some x \<longrightarrow> now < x) \<longrightarrow>
      verifyToken e now req =
        Inr (req\<lparr>req_user := Some \<lparr>ident_id = jwt_id c, ident_role = jwt_role c\<rparr>\<rparr>)"
  proof (intro allI impI)
    fix h c
    assume a: "headers_authorization req = Some h \<and> strip_bearer h = Jws c (JWT_SECRET e)
        \<and> JWT_SECRET e \<noteq> [] \<and> (\<forall>x. jwt_exp c = Some x \<longrightarrow> now < x)"
    then have "h \<noteq> Bare (Text [])" by auto
    moreover from a have "jwt_verify (strip_bearer h) (JWT_SECRET e) now = Inr c"
      by (auto split: option.splits)
    ultimately show "verifyToken e now req =
        Inr (req\<lparr>req_user := Some \<lparr>ident_id = jwt_id c, ident_role = jwt_role c\<rparr>\<rparr>)"
      using a by (simp add: verifyToken_def)
  qed
  from p1 p2 p3 p4 p5 show ?thesis by (intro conjI)
qed

text \<open>
  With the sample secret: no header, a token past its expiry, a token signed with another
  key, and a token in force.
\<close>

theorem verifyToken_stage_witness:
  "verifyToken demo_env 5000 (demo_request None)
     = Inl (reply 401 (error_json ''Token tidak ditemukan atau belum login''))
 \<and> verifyToken demo_env 5000 (demo_request (Some (Bearer (Jws demo_claims ''s3cret''))))
     = Inl (reply 401 (error_json ''Token kadaluarsa, silakan login ulang''))
 \<and> verifyToken demo_env 2000 (demo_request (Some (Bearer (Jws demo_claims ''forged''))))
     = Inl (reply 401 (error_json ''Token invalid: invalid signature''))
 \<and> verifyToken demo_env 2000 (demo_request (Some (Bearer (Jws demo_claims ''s3cret''))))
     = Inr \<lparr>headers_authorization = Some (Bearer (Jws demo_claims ''s3cret'')),
            req_user = Some \<lparr>ident_id = 2, ident_role = Some ''cashier''\<rparr>\<rparr>"
proof -
  note T = verifyToken_stage [where e = demo_env]
  have 1: "verifyToken demo_env 5000 (demo_request None)
     = Inl (reply 401 (error_json ''Token tidak ditemukan atau belum login''))"
    using T [of "demo_request None" 5000] by (simp add: demo_request_def)
  have 2: "verifyToken demo_env 5000 (demo_request (Some (Bearer (Jws demo_claims ''s3cret''))))
     = Inl (reply 401 (error_json ''Token kadaluarsa, silakan login ulang''))"
    using T [of "demo_request (Some (Bearer (Jws demo_claims ''s3cret'')))" 5000]
    by (simp add: demo_request_def demo_env_def demo_claims_def)
  have 3: "verifyToken demo_env 2000 (demo_request (Some (Bearer (Jws demo_claims ''forged''))))
     = Inl (reply 401 (error_json ''Token invalid: invalid signature''))"
    using T [of "demo_request (Some (Bearer (Jws demo_claims ''forged'')))" 2000]
    by (simp add: demo_request_def demo_env_def demo_claims_def)
  have 4: "verifyToken demo_env 2000 (demo_request (Some (Bearer (Jws demo_claims ''s3cret''))))
     = Inr \<lparr>headers_authorization = Some (Bearer (Jws demo_claims ''s3cret'')),
            req_user = Some \<lparr>ident_id = 2, ident_role = Some ''cashier''\<rparr>\<rparr>"
    using T [of "demo_request (Some (Bearer (Jws demo_claims ''s3cret'')))" 2000]
    by (simp add: demo_request_def demo_env_def demo_claims_def)
  from 1 2 3 4 show ?thesis by blast
qed

section \<open>The verify helper\<close>

text \<open>
  C8, as the claim states it, fails in its last part: at time 5000 the library reports the
  sample token as expired and the same claims under a forged key as having an invalid
  signature, and the helper returns the same value for both, so its result tells a caller
  nothing about which it was.
\<close>

theorem helper_verifyToken_counterexample:
  "jwt_verify (Jws demo_claims ''s3cret'') (JWT_SECRET demo_env) 5000 = Inl ''jwt expired''
 \<and> jwt_verify (Jws demo_claims ''forged'') (JWT_SECRET demo_env) 5000 = Inl ''invalid signature''
 \<and> helper_verifyToken demo_env 5000 (Jws demo_claims ''s3cret'') None
     = helper_verifyToken demo_env 5000 (Jws demo_claims ''forged'') None"
  by (simp add: helper_verifyToken_def demo_env_def demo_claims_def)

text \<open>
  C8, amended. The helper returns \<^verbatim>\<open>null\<close> for text that is no token, for a token
  signed with another key than the secret, and for a token whose \<^verbatim>\<open>exp\<close> has been reached;
  it returns the claims of a token signed with the (non-empty) secret that has not expired;
  without a secret argument it verifies against the access secret. It never throws: its
  result is \<^verbatim>\<open>null\<close> exactly when the library throws, whatever the error, and the
  result does not say which error it was.
\<close>

theorem helper_verifyToken_result:
  "helper_verifyToken e now (Text x) secret = None
 \<and> (k \<noteq> s \<longrightarrow> helper_verifyToken e now (Jws c k) (Some s) = None)
 \<and> (jwt_exp c = Some t \<and> t \<le> now \<longrightarrow> helper_verifyToken e now (Jws c k) secret = None)
 \<and> (s \<noteq> [] \<and> (\<forall>t. jwt_exp c = Some t \<longrightarrow> now < t) \<longrightarrow>
       helper_verifyToken e now (Jws c s) (Some s) = Some c)
 \<and> helper_verifyToken e now token None = helper_verifyToken e now token (Some (JWT_SECRET e))
 \<and> (helper_verifyToken e now token secret = None \<longleftrightarrow>
       (\<exists>m. jwt_verify token (case secret of None \<Rightarrow> JWT_SECRET e | Some v \<Rightarrow> v) now = Inl m))"
  by (auto simp: helper_verifyToken_def split: option.splits sum.splits)

text \<open>The four cases on the sample token.\<close>

theorem helper_verifyToken_result_witness:
  "helper_verifyToken demo_env 2000 (Text ''abc'') None = None
 \<and> helper_verifyToken demo_env 2000 (Jws demo_claims ''forged'') (Some ''s3cret'') = None
 \<and> helper_verifyToken demo_env 5000 (Jws demo_claims ''s3cret'') None = None
 \<and> helper_verifyToken demo_env 2000 (Jws demo_claims ''s3cret'') (Some ''s3cret'') = Some demo_claims"
proof -
  have 1: "helper_verifyToken demo_env 2000 (Text ''abc'') None = None"
    using helper_verifyToken_result [where e = demo_env and now = 2000 and x = "''abc''"
        and secret = None and k = "[]" and s = "[]" and c = demo_claims and t = 0
        and token = "Text []"]
    by blast
  have 2: "helper_verifyToken demo_env 2000 (Jws demo_claims ''forged'') (Some ''s3cret'') = None"
    using helper_verifyToken_result [where e = demo_env and now = 2000 and x = "[]"
        and secret = None and k = "''forged''" and s = "''s3cret''" and c = demo_claims and t = 0
        and token = "Text []"]
    by simp
  have x: "jwt_exp demo_claims = Some 4600 \<and> (4600::int) \<le> 5000"
    by (simp add: demo_claims_def)
  have 3: "helper_verifyToken demo_env 5000 (Jws demo_claims ''s3cret'') None = None"
    using helper_verifyToken_result [where e = demo_env and now = 5000 and x = "[]"
        and secret = None and k = "''s3cret''" and s = "[]" and c = demo_claims and t = 4600
        and token = "Text []"] x
    by blast
  have y: "''s3cret'' \<noteq> [] \<and> (\<forall>t. jwt_exp demo_claims = Some t \<longrightarrow> 2000 < t)"
    by (simp add: demo_claims_def)
  have 4: "helper_verifyToken demo_env 2000 (Jws demo_claims ''s3cret'') (Some ''s3cret'') = Some demo_claims"
    using helper_verifyToken_result [where e = demo_env and now = 2000 and x = "[]"
        and secret = None and k = "[]" and s = "''s3cret''" and c = demo_claims and t = 0
        and token = "Text []"] y
    by blast
  from 1 2 3 4 show ?thesis by blast
qed

section \<open>The role stage\<close>

lemma lower_char_idem: "lower_char (lower_char c) = lower_char c"
  unfolding lower_char_def by (auto split: option.splits if_splits)

lemma toLowerCase_idem: "toLowerCase (toLowerCase s) = toLowerCase s"
  by (simp add: toLowerCase_def lower_char_idem)

lemma not_allowed_lower:
  assumes "\<forall>a\<in>set allowedRoles. toLowerCase a \<noteq> toLowerCase r"
  shows "toLowerCase r \<notin> set allowedRoles"
proof
  assume "toLowerCase r \<in> set allowedRoles"
  with assms have "toLowerCase (toLowerCase r) \<noteq> toLowerCase r" by blast
  then show False by (simp add: toLowerCase_idem)
qed

lemma verifyRole_no_identity:
  "req_user req = None \<or> (\<exists>i. req_user req = Some i \<and> ident_id i = 0)
     \<Longrightarrow> verifyRole allowedRoles f st req = Inl (reply 401 (error_json ''User tidak valid''))"
  by (auto simp: verifyRole_def)

lemma verifyRole_disabled:
  assumes "req_user req = Some ident" "ident_id ident \<noteq> 0" "throws f 0 = None"
    "user_by_id st (ident_id ident) = Some usr" "u_is_active_disabled usr = Some True"
  shows "verifyRole allowedRoles f st req = Inl (reply 403 (error_json ''Akun Anda telah dinonaktifkan''))"
  using assms by (simp add: verifyRole_def)

lemma verifyRole_role_refused:
  assumes "req_user req = Some ident" "ident_id ident \<noteq> 0" "throws f 0 = None"
    "user_by_id st (ident_id ident) = Some usr"
    "\<forall>a\<in>set allowedRoles. toLowerCase a \<noteq> toLowerCase (u_role usr)"
  shows "\<exists>r. verifyRole allowedRoles f st req = Inl r \<and> status r = 403"
  using assms(1-4) not_allowed_lower [OF assms(5)] by (simp add: verifyRole_def)

lemma verifyRole_ignores_token_role:
  "verifyRole allowedRoles f st (req\<lparr>req_user := Some (ident\<lparr>ident_role := r\<rparr>)\<rparr>)
     = (case verifyRole allowedRoles f st (req\<lparr>req_user := Some ident\<rparr>) of
          Inl a \<Rightarrow> Inl a
        | Inr q \<Rightarrow> Inr (q\<lparr>req_user := Some (ident\<lparr>ident_role := r\<rparr>)\<rparr>))"
  by (simp add: verifyRole_def split: option.splits)

lemma jwt_verify_Inr_header:
  assumes "jwt_verify (strip_bearer h) s now = Inr c"
  shows "h \<noteq> Bare (Text [])"
  using assms by auto

lemma protected_verified:
  assumes "headers_authorization req = Some h" "jwt_verify (strip_bearer h) (JWT_SECRET e) now = Inr c"
  shows "protected allowedRoles e now f st req
     = verifyRole allowedRoles f st
         (req\<lparr>req_user := Some \<lparr>ident_id = jwt_id c, ident_role = jwt_role c\<rparr>\<rparr>)"
  using assms jwt_verify_Inr_header [OF assms(2)]
  by (simp add: protected_def verifyToken_def)

lemma find_map_same_key:
  assumes "\<And>u. P (g u) = P u"
  shows "find P (map (\<lambda>u. if P u then g u else u) us) = map_option g (find P us)"
  using assms by (induction us) auto

lemma u_id_update_user [simp]: "u_id (update_user b u) = u_id u"
  by (simp add: update_user_def)

lemma put_user_200:
  assumes "put_user f st uid b = (res, st')" and "status res = 200"
  shows "\<exists>u. user_by_id st uid = Some u \<and> user_by_id st' uid = Some (update_user b u)
     \<and> users st' = map (\<lambda>u. if u_id u = uid then update_user b u else u) (users st)"
proof -
  from assms have st': "users st' = map (\<lambda>u. if u_id u = uid then update_user b u else u) (users st)"
    and ne: "filter (\<lambda>u. u_id u = uid) (users st) \<noteq> []"
    by (auto simp: put_user_def error_json_def split: option.splits list.splits)
  have "find (\<lambda>u. u_id u = uid) (users st') = map_option (update_user b) (find (\<lambda>u. u_id u = uid) (users st))"
    unfolding st' by (rule find_map_same_key) simp
  moreover from ne obtain u where "find (\<lambda>u. u_id u = uid) (users st) = Some u"
    by (cases "find (\<lambda>u. u_id u = uid) (users st)") (auto simp: find_None_iff filter_empty_conv)
  ultimately show ?thesis using st' by (simp add: user_by_id_def)
qed

lemma put_user_disables:
  assumes "put_user f st uid b = (res, st')" and "status res = 200"
    and "ub_is_active_disabled b = Some True"
  shows "\<exists>usr. user_by_id st' uid = Some usr \<and> u_is_active_disabled usr = Some True"
  using put_user_200 [OF assms(1,2)] assms(3)
  by (auto simp: update_user_def COALESCE_def)

text \<open>
  C4. Let the request carry an identity with a non-zero id, let the SELECT not fail, and
  let \<open>usr\<close> be the row the store holds for that id. If the row's disabled flag is true
  the role stage answers 403 with the message for a disabled account. If no role of the
  allowed set equals the row's role when both are put in lower case, it answers 403. The
  role in \<^verbatim>\<open>req.user\<close>, which comes from the token, has no part in the answer. Hence a
  request whose token verifies is answered 403 by a protected route whenever the store
  holds the token's user with the flag set, and a PUT /users/:id that answers 200 with
  \<^verbatim>\<open>_is_active_disabled: true\<close> leaves the store holding that user so.
\<close>

theorem verifyRole_stage:
  "(req_user req = Some ident \<and> ident_id ident \<noteq> 0 \<and> throws f 0 = None
      \<and> user_by_id st (ident_id ident) = Some usr \<longrightarrow>
     (u_is_active_disabled usr = Some True \<longrightarrow>
        verifyRole allowedRoles f st req = Inl (reply 403 (error_json ''Akun Anda telah dinonaktifkan'')))
   \<and> ((\<forall>a\<in>set allowedRoles. toLowerCase a \<noteq> toLowerCase (u_role usr)) \<longrightarrow>
        (\<exists>r. verifyRole allowedRoles f st req = Inl r \<and> status r = 403)))
 \<and> verifyRole allowedRoles f st (req\<lparr>req_user := Some (ident\<lparr>ident_role := r\<rparr>)\<rparr>)
     = (case verifyRole allowedRoles f st (req\<lparr>req_user := Some ident\<rparr>) of
          Inl a \<Rightarrow> Inl a
        | Inr q \<Rightarrow> Inr (q\<lparr>req_user := Some (ident\<lparr>ident_role := r\<rparr>)\<rparr>))
 \<and> (headers_authorization rq = Some h \<and> jwt_verify (strip_bearer h) (JWT_SECRET e) now = Inr c
      \<and> jwt_id c \<noteq> 0 \<and> throws f 0 = None
      \<and> user_by_id st (jwt_id c) = Some usr \<and> u_is_active_disabled usr = Some True \<longrightarrow>
     protected allowedRoles e now f st rq = Inl (reply 403 (error_json ''Akun Anda telah dinonaktifkan'')))
 \<and> (put_user f1 st1 uid b = (res, st2) \<and> status res = 200 \<and> ub_is_active_disabled b = Some True \<longrightarrow>
     (\<exists>u. user_by_id st2 uid = Some u \<and> u_is_active_disabled u = Some True))"
proof -
  have p1: "req_user req = Some ident \<and> ident_id ident \<noteq> 0 \<and> throws f 0 = None
      \<and> user_by_id st (ident_id ident) = Some usr \<longrightarrow>
     (u_is_active_disabled usr = Some True \<longrightarrow>
        verifyRole allowedRoles f st req = Inl (reply 403 (error_json ''Akun Anda telah dinonaktifkan'')))
   \<and> ((\<forall>a\<in>set allowedRoles. toLowerCase a \<noteq> toLowerCase (u_role usr)) \<longrightarrow>
        (\<exists>r. verifyRole allowedRoles f st req = Inl r \<and> status r = 403))"
    using verifyRole_disabled [of req ident f st usr allowedRoles]
      verifyRole_role_refused [of req ident f st usr allowedRoles]
    by blast
  have p3: "headers_authorization rq = Some h \<and> jwt_verify (strip_bearer h) (JWT_SECRET e) now = Inr c
      \<and> jwt_id c \<noteq> 0 \<and> throws f 0 = None
      \<and> user_by_id st (jwt_id c) = Some usr \<and> u_is_active_disabled usr = Some True \<longrightarrow>
     protected allowedRoles e now f st rq = Inl (reply 403 (error_json ''Akun Anda telah dinonaktifkan''))"
  proof
    assume a: "headers_authorization rq = Some h \<and> jwt_verify (strip_bearer h) (JWT_SECRET e) now = Inr c
      \<and> jwt_id c \<noteq> 0 \<and> throws f 0 = None
      \<and> user_by_id st (jwt_id c) = Some usr \<and> u_is_active_disabled usr = Some True"
    then have "protected allowedRoles e now f st rq
       = verifyRole allowedRoles f st
           (rq\<lparr>req_user := Some \<lparr>ident_id = jwt_id c, ident_role = jwt_role c\<rparr>\<rparr>)"
      by (simp add: protected_verified)
    also from a have "\<dots> = Inl (reply 403 (error_json ''Akun Anda telah dinonaktifkan''))"
      by (intro verifyRole_disabled [where ident = "\<lparr>ident_id = jwt_id c, ident_role = jwt_role c\<rparr>"
            and usr = usr]) simp_all
    finally show "protected allowedRoles e now f st rq
       = Inl (reply 403 (error_json ''Akun Anda telah dinonaktifkan''))" .
  qed
  have p4: "put_user f1 st1 uid b = (res, st2) \<and> status res = 200 \<and> ub_is_active_disabled b = Some True \<longrightarrow>
     (\<exists>u. user_by_id st2 uid = Some u \<and> u_is_active_disabled u = Some True)"
    using put_user_disables [of f1 st1 uid b res st2] by blast
  from p1 verifyRole_ignores_token_role [where allowedRoles = allowedRoles and f = f and st = st and req = req and ident = ident and r = r] p3 p4
  show ?thesis by (intro conjI)
qed

text \<open>
  On the sample store: the cashier is disabled by PUT /users/2, and the next request with
  the cashier's token, still in force, is answered 403; an identity whose token says
  \<^verbatim>\<open>admin\<close> but whose row says \<^verbatim>\<open>cashier\<close> is refused on an admin route.
\<close>

theorem verifyRole_stage_witness:
  "protected [''cashier'', ''admin''] demo_env 2000 None (snd (put_user None demo_store 2 demo_ban))
      (demo_request (Some (Bearer (Jws demo_claims ''s3cret''))))
     = Inl (reply 403 (error_json ''Akun Anda telah dinonaktifkan''))
 \<and> (\<exists>r. verifyRole [''admin''] None demo_store
            \<lparr>headers_authorization = None,
             req_user = Some \<lparr>ident_id = 2, ident_role = Some ''admin''\<rparr>\<rparr> = Inl r
        \<and> status r = 403)"
proof -
  let ?st2 = "snd (put_user None demo_store 2 demo_ban)"
  let ?u = "update_user demo_ban demo_cashier"
  let ?rq = "demo_request (Some (Bearer (Jws demo_claims ''s3cret'')))"
  let ?req = "\<lparr>headers_authorization = None,
             req_user = Some \<lparr>ident_id = 2, ident_role = Some ''admin''\<rparr>\<rparr>"
  have t: "throws None 0 = None" by (simp add: throws_def)
  have h: "headers_authorization ?rq = Some (Bearer (Jws demo_claims ''s3cret''))"
    by (simp add: demo_request_def)
  have v: "jwt_verify (strip_bearer (Bearer (Jws demo_claims ''s3cret''))) (JWT_SECRET demo_env) 2000
             = Inr demo_claims"
    by (simp add: demo_env_def demo_claims_def)
  have i: "jwt_id demo_claims \<noteq> 0" "jwt_id demo_claims = 2" by (simp_all add: demo_claims_def)
  have u2: "user_by_id ?st2 (jwt_id demo_claims) = Some ?u"
    by (simp add: put_user_def user_by_id_def throws_def demo_defs demo_claims_def)
  have d: "u_is_active_disabled ?u = Some True"
    by (simp add: update_user_def demo_ban_def COALESCE_def)
  have 1: "protected [''cashier'', ''admin''] demo_env 2000 None ?st2 ?rq
     = Inl (reply 403 (error_json ''Akun Anda telah dinonaktifkan''))"
    using verifyRole_stage [where rq = ?rq and h = "Bearer (Jws demo_claims ''s3cret'')"
        and e = demo_env and now = 2000 and c = demo_claims and f = None and st = ?st2
        and usr = ?u and allowedRoles = "[''cashier'', ''admin'']"] t h v i(1) u2 d
    by blast
  have r: "req_user ?req = Some \<lparr>ident_id = 2, ident_role = Some ''admin''\<rparr>"
      "ident_id \<lparr>ident_id = 2, ident_role = Some ''admin''\<rparr> \<noteq> 0"
    by simp_all
  have u1: "user_by_id demo_store (ident_id \<lparr>ident_id = 2, ident_role = Some ''admin''\<rparr>)
              = Some demo_cashier"
    by (simp add: user_by_id_def demo_defs)
  have n: "\<forall>a\<in>set [''admin'']. toLowerCase a \<noteq> toLowerCase (u_role demo_cashier)"
    by (simp add: toLowerCase_def lower_char_def demo_defs)
  have 2: "\<exists>r. verifyRole [''admin''] None demo_store ?req = Inl r \<and> status r = 403"
    using verifyRole_stage [where req = ?req and ident = "\<lparr>ident_id = 2, ident_role = Some ''admin''\<rparr>"
        and f = None and st = demo_store and usr = demo_cashier and allowedRoles = "[''admin'']"]
      t r u1 n
    by blast
  from 1 2 show ?thesis by blast
qed

text \<open>
  C10. When the request carries an identity with a non-zero id, the SELECT does not fail and
  the store has no user row of that id, the role stage answers 404 with the message
  \<^verbatim>\<open>User tidak ditemukan\<close>; so does a protected route for a request whose token verifies
  and names such an id.
\<close>

theorem verifyRole_user_not_found:
  "(req_user req = Some ident \<and> ident_id ident \<noteq> 0 \<and> throws f 0 = None
      \<and> user_by_id st (ident_id ident) = None \<longrightarrow>
     verifyRole allowedRoles f st req = Inl (reply 404 (error_json ''User tidak ditemukan'')))
 \<and> (headers_authorization rq = Some h \<and> jwt_verify (strip_bearer h) (JWT_SECRET e) now = Inr c
      \<and> jwt_id c \<noteq> 0 \<and> throws f 0 = None \<and> user_by_id st (jwt_id c) = None \<longrightarrow>
     protected allowedRoles e now f st rq = Inl (reply 404 (error_json ''User tidak ditemukan'')))"
proof (intro conjI impI)
  assume "req_user req = Some ident \<and> ident_id ident \<noteq> 0 \<and> throws f 0 = None
      \<and> user_by_id st (ident_id ident) = None"
  then show "verifyRole allowedRoles f st req = Inl (reply 404 (error_json ''User tidak ditemukan''))"
    by (simp add: verifyRole_def)
next
  assume a: "headers_authorization rq = Some h \<and> jwt_verify (strip_bearer h) (JWT_SECRET e) now = Inr c
      \<and> jwt_id c \<noteq> 0 \<and> throws f 0 = None \<and> user_by_id st (jwt_id c) = None"
  then have "protected allowedRoles e now f st rq
       = verifyRole allowedRoles f st
           (rq\<lparr>req_user := Some \<lparr>ident_id = jwt_id c, ident_role = jwt_role c\<rparr>\<rparr>)"
    by (simp add: protected_verified)
  with a show "protected allowedRoles e now f st rq = Inl (reply 404 (error_json ''User tidak ditemukan''))"
    by (simp add: verifyRole_def)
qed

text \<open>A token in force for the id 7, which the sample store does not hold.\<close>

theorem verifyRole_user_not_found_witness:
  "protected [''admin''] demo_env 2000 None demo_store
      (demo_request (Some (Bearer (Jws (demo_claims\<lparr>jwt_id := 7\<rparr>) ''s3cret''))))
     = Inl (reply 404 (error_json ''User tidak ditemukan''))"
proof -
  let ?c = "demo_claims\<lparr>jwt_id := 7\<rparr>"
  let ?rq = "demo_request (Some (Bearer (Jws ?c ''s3cret'')))"
  have t: "throws None 0 = None" by (simp add: throws_def)
  have h: "headers_authorization ?rq = Some (Bearer (Jws ?c ''s3cret''))"
    by (simp add: demo_request_def)
  have v: "jwt_verify (strip_bearer (Bearer (Jws ?c ''s3cret''))) (JWT_SECRET demo_env) 2000 = Inr ?c"
    by (simp add: demo_env_def demo_claims_def)
  have i: "jwt_id ?c \<noteq> 0" by simp
  have u: "user_by_id demo_store (jwt_id ?c) = None"
    by (simp add: user_by_id_def demo_defs)
  show ?thesis
    using verifyRole_user_not_found [where rq = ?rq and h = "Bearer (Jws ?c ''s3cret'')"
        and e = demo_env and now = 2000 and c = ?c and f = None and st = demo_store
        and allowedRoles = "[''admin'']"] t h v i u
    by blast
qed

section \<open>Product creation\<close>

lemma sql_max_Max: "sql_max xs = (if xs = [] then None else Some (Max (set xs)))"
proof (cases xs)
  case Nil
  then show ?thesis by simp
next
  case (Cons a list)
  have "fold max list a = Max (set (a # list))" by (rule Max.set_eq_fold [symmetric])
  with Cons show ?thesis by simp
qed

lemma next_id_Max:
  "next_id ps = (if ps = [] then 0 else Max (p_id ` set ps)) + 1"
  by (simp add: next_id_def sql_max_Max)

lemma next_id_fresh: "next_id ps \<notin> p_id ` set ps"
proof
  assume a: "next_id ps \<in> p_id ` set ps"
  then have ne: "ps \<noteq> []" by auto
  from a have "next_id ps \<le> Max (p_id ` set ps)" by (intro Max_ge) auto
  with ne show False by (simp add: next_id_Max)
qed

lemma validate_fields:
  assumes "validateProductInput b = None"
  shows "\<exists>i n p s c t. pb_id b = Some i \<and> i \<noteq> 0 \<and> pb_name b = Some n \<and> n \<noteq> []
     \<and> pb_price b = Some p \<and> 0 \<le> p \<and> pb_size b = Some s \<and> s \<noteq> []
     \<and> pb_color b = Some c \<and> c \<noteq> [] \<and> pb_category b = Some t \<and> t \<in> set ALLOWED_TYPES"
  using assms
  by (auto simp: validateProductInput_def falsy_num_def falsy_str_def split: if_splits option.splits)

lemma validate_ignores_id:
  "v \<noteq> 0 \<Longrightarrow> validateProductInput b = None \<Longrightarrow> validateProductInput (b\<lparr>pb_id := Some v\<rparr>) = None"
  by (auto simp: validateProductInput_def falsy_num_def split: if_splits)

lemma throws_None [simp]: "throws None i = None"
  by (simp add: throws_def)

lemma post_product_try_ok:
  "post_product_try d None (pool_connect st) b
     = Inr (new_product d (next_id (products st)) b,
            \<lparr>db = st\<lparr>products := products st @ [new_product d (next_id (products st)) b]\<rparr>,
             tx = None\<rparr>)"
  by (simp add: post_product_try_def pool_connect_def BEGIN_def COMMIT_def on_client_def seen_def Let_def)

text \<open>
  C2. For a body that passes the validation, when no store call fails, POST /products
  answers 201 with the new row, and the released connection holds the old table with
  that row appended and no open transaction. The id of the row is the greatest id of
  the table (0 for an empty table) plus 1, an id no row had; its availability flag is
  true; its other fields are the body's. The id of the body has no part in it: any other
  non-zero id in the body gives the same result. No ROLLBACK runs, so it holds whatever
  a ROLLBACK would do.
\<close>

theorem post_product_inserts:
  assumes "validateProductInput b = None"
  shows "\<exists>row. post_product d None rb st b
           = (Some (reply 201 (product_json row)), \<lparr>db = st\<lparr>products := products st @ [row]\<rparr>, tx = None\<rparr>)
      \<and> p_id row = (if products st = [] then 0 else Max (p_id ` set (products st))) + 1
      \<and> p_id row \<notin> p_id ` set (products st)
      \<and> p_available row = True
      \<and> pb_name b = Some (p_name row) \<and> pb_price b = Some (p_price row)
      \<and> pb_size b = Some (p_size row) \<and> pb_color b = Some (p_color row)
      \<and> pb_category b = Some (p_category row)
      \<and> (\<forall>v. v \<noteq> 0 \<longrightarrow> post_product d None rb st (b\<lparr>pb_id := Some v\<rparr>) = post_product d None rb st b)"
proof -
  let ?row = "new_product d (next_id (products st)) b"
  have 1: "post_product d None rb st b
           = (Some (reply 201 (product_json ?row)), \<lparr>db = st\<lparr>products := products st @ [?row]\<rparr>, tx = None\<rparr>)"
    using assms by (simp add: post_product_def post_product_try_ok)
  have 2: "p_id ?row = (if products st = [] then 0 else Max (p_id ` set (products st))) + 1"
    by (simp add: new_product_def next_id_Max)
  have 3: "p_id ?row \<notin> p_id ` set (products st)"
    using next_id_fresh [of "products st"] by (simp add: new_product_def)
  have 4: "p_available ?row = True" by (simp add: new_product_def)
  from validate_fields [OF assms]
  have 5: "pb_name b = Some (p_name ?row) \<and> pb_price b = Some (p_price ?row)
      \<and> pb_size b = Some (p_size ?row) \<and> pb_color b = Some (p_color ?row)
      \<and> pb_category b = Some (p_category ?row)"
    by (auto simp: new_product_def)
  have 6: "\<forall>v. v \<noteq> 0 \<longrightarrow> post_product d None rb st (b\<lparr>pb_id := Some v\<rparr>) = post_product d None rb st b"
  proof (intro allI impI)
    fix v :: int assume "v \<noteq> 0"
    then have "validateProductInput (b\<lparr>pb_id := Some v\<rparr>) = None"
      using assms by (rule validate_ignores_id)
    moreover have "new_product d (next_id (products st)) (b\<lparr>pb_id := Some v\<rparr>) = ?row"
      by (simp add: new_product_def)
    ultimately show "post_product d None rb st (b\<lparr>pb_id := Some v\<rparr>) = post_product d None rb st b"
      using 1 by (simp add: post_product_def post_product_try_ok)
  qed
  from 1 2 3 4 5 6 show ?thesis by blast
qed

lemmas product_defs = validateProductInput_def falsy_num_def falsy_str_def ALLOWED_TYPES_def
  post_product_def post_product_try_def pool_connect_def BEGIN_def COMMIT_def ROLLBACK_def
  on_client_def seen_def next_id_def new_product_def throws_def reply_def

text \<open>A body with the id 4, on a table whose ids are 9 and 4: the new row gets the id 10.\<close>

theorem post_product_inserts_witness:
  "validateProductInput demo_hat = None
 \<and> (\<exists>row. post_product (Some 0) None None demo_shop demo_hat
        = (Some (reply 201 (product_json row)), \<lparr>db = demo_shop\<lparr>products := [demo_belt, demo_shirt, row]\<rparr>, tx = None\<rparr>)
      \<and> p_id row = 10 \<and> p_available row)"
proof -
  have v: "validateProductInput demo_hat = None" by (simp add: product_defs demo_hat_def)
  have m: "(if products demo_shop = [] then 0 else Max (p_id ` set (products demo_shop))) + 1 = 10"
    by (simp add: demo_shop_def demo_belt_def demo_shirt_def)
  have p: "products demo_shop = [demo_belt, demo_shirt]" by (simp add: demo_shop_def)
  from post_product_inserts [OF v, of "Some 0" None demo_shop] m p
  have "\<exists>row. post_product (Some 0) None None demo_shop demo_hat
        = (Some (reply 201 (product_json row)), \<lparr>db = demo_shop\<lparr>products := [demo_belt, demo_shirt, row]\<rparr>, tx = None\<rparr>)
      \<and> p_id row = 10 \<and> p_available row"
    by auto
  with v show ?thesis by blast
qed

section \<open>Product creation: a failing statement\<close>

lemma post_product_try_fault:
  assumes "f = Some (i, m)" and "i \<le> 4"
  shows "\<exists>c. post_product_try d f (pool_connect st) b = Inl c \<and> db c = st
           \<and> (1 \<le> i \<longrightarrow> tx c \<noteq> None)"
proof -
  from assms(2) have "i = 0 \<or> i = 1 \<or> i = 2 \<or> i = 3 \<or> i = 4" by arith
  then show ?thesis
    using assms(1)
    by (auto simp: post_product_try_def throws_def pool_connect_def BEGIN_def on_client_def Let_def)
qed

text \<open>
  When one of the five statements from BEGIN to COMMIT throws and the ROLLBACK succeeds,
  POST /products answers 500 with the message \<^verbatim>\<open>Server error\<close>, whatever the error was,
  and releases the connection with no open transaction and the database as it was.
\<close>

lemma post_product_rollback_done:
  assumes "validateProductInput b = None" and "f = Some (i, m)" and "i \<le> 4"
  shows "post_product d f None st b
           = (Some (reply 500 (JObj [(''error'', JStr ''Server error'')])), \<lparr>db = st, tx = None\<rparr>)"
proof -
  from post_product_try_fault [OF assms(2,3)] obtain c where
    c: "post_product_try d f (pool_connect st) b = Inl c" "db c = st" by blast
  have "ROLLBACK c = \<lparr>db = st, tx = None\<rparr>" using c(2) by (simp add: ROLLBACK_def)
  with c(1) assms(1) show ?thesis by (simp add: post_product_def)
qed

text \<open>
  When the ROLLBACK throws as well, the handler sends no reply. The database is as it was,
  and a transaction that BEGIN had opened is still open on the released connection.
\<close>

lemma post_product_rollback_rejected:
  assumes "validateProductInput b = None" and "f = Some (i, m)" and "i \<le> 4"
  shows "fst (post_product d f (Some m') st b) = None
       \<and> db (snd (post_product d f (Some m') st b)) = st
       \<and> (1 \<le> i \<longrightarrow> tx (snd (post_product d f (Some m') st b)) \<noteq> None)"
proof -
  from post_product_try_fault [OF assms(2,3)] obtain c where
    c: "post_product_try d f (pool_connect st) b = Inl c" "db c = st" "1 \<le> i \<longrightarrow> tx c \<noteq> None"
    by blast
  from c(1) assms(1) have "post_product d f (Some m') st b = (None, c)"
    by (simp add: post_product_def)
  with c(2,3) show ?thesis by simp
qed

text \<open>
  The database of the released connection is the one before the request whenever a
  statement from BEGIN to COMMIT throws, whatever the ROLLBACK does.
\<close>

lemma post_product_fault_db:
  assumes "validateProductInput b = None" and "f = Some (i, m)" and "i \<le> 4"
  shows "db (snd (post_product d f rb st b)) = st"
proof (cases rb)
  case None
  with post_product_rollback_done [OF assms] show ?thesis by simp
next
  case (Some m')
  with post_product_rollback_rejected [OF assms] show ?thesis by simp
qed

text \<open>
  C7 does not hold of the code when the ROLLBACK fails too. On the sample shop, for a body
  that passes the validation, the connection is lost during the request: the INSERT throws
  and so does the ROLLBACK of the \<^verbatim>\<open>catch\<close> block. The handler sends no reply, where the
  claim has a generic server error reported, and it releases the connection with the
  transaction still open, where the claim has the transaction rolled back. The database is
  as it was. With a ROLLBACK that succeeds, the same failing INSERT is answered 500 with
  the message \<^verbatim>\<open>Server error\<close> and the transaction is closed.
\<close>

theorem post_product_rollback_lost:
  "validateProductInput demo_hat = None
 \<and> post_product (Some 0) (Some (3, ''Connection terminated'')) (Some ''Connection terminated'')
      demo_shop demo_hat
     = (None, \<lparr>db = demo_shop, tx = Some demo_shop\<rparr>)
 \<and> post_product (Some 0) (Some (3, ''Connection terminated'')) None demo_shop demo_hat
     = (Some (reply 500 (JObj [(''error'', JStr ''Server error'')])), \<lparr>db = demo_shop, tx = None\<rparr>)"
  by (simp add: product_defs demo_hat_def)

section \<open>Updates\<close>









end
